theory Spec2Isabelle
  imports Complex_Main "HOL-Library.Multiset"
begin

section \<open>JavaScript values\<close>

text \<open>
  The tool (create_custom_fields.ts) builds plain JavaScript objects and hands them to a
  remote metadata API. A value that ends up in such an object is one of the following.
  An object is kept as the list of its own properties in insertion order, which is the
  order \<open>Object.entries\<close> reports for string keys. \<open>JBuiltin n\<close> stands for the
  member \<open>n\<close> that every object literal inherits from \<open>Object.prototype\<close> (a function
  such as \<open>toString\<close>, or the prototype object itself for \<open>__proto__\<close>).
  Numbers are only copied by this program, never computed with.
  Strings are byte lists; the two non-ASCII marks of the report are written in UTF-8.
\<close>

datatype jsval =
    JUndefined
  | JNull
  | JBool bool
  | JNum real
  | JStr string
  | JArr "jsval list"
  | JObj "(string \<times> jsval) list"
  | JBuiltin string

type_synonym jsobj = "(string \<times> jsval) list"

text \<open>\<open>obj[k] = v\<close>: an existing own property keeps its place, a new one goes last.\<close>

fun set_prop :: "jsobj \<Rightarrow> string \<Rightarrow> jsval \<Rightarrow> jsobj" where
  "set_prop [] k v = [(k, v)]"
| "set_prop ((k', v') # ps) k v =
     (if k' = k then (k, v) # ps else (k', v') # set_prop ps k v)"

text \<open>\<open>{...base, ...obj}\<close> and \<open>Object.fromEntries\<close>: the entries are assigned one by one.\<close>

definition assign_all :: "jsobj \<Rightarrow> (string \<times> jsval) list \<Rightarrow> jsobj" where
  "assign_all base entries = foldl (\<lambda>acc (k, v). set_prop acc k v) base entries"

definition fromEntries :: "(string \<times> jsval) list \<Rightarrow> jsobj" where
  "fromEntries entries = assign_all [] entries"

text \<open>Reading an own property; \<open>None\<close> when the object has no such key.\<close>

definition own_prop :: "jsobj \<Rightarrow> string \<Rightarrow> jsval option" where
  "own_prop obj k = map_of obj k"

text \<open>The names every object literal inherits from \<open>Object.prototype\<close>.\<close>

definition object_prototype_names :: "string list" where
  "object_prototype_names =
     [''constructor'', ''__defineGetter__'', ''__defineSetter__'', ''hasOwnProperty'',
      ''__lookupGetter__'', ''__lookupSetter__'', ''isPrototypeOf'',
      ''propertyIsEnumerable'', ''toString'', ''valueOf'', ''__proto__'',
      ''toLocaleString'']"

text \<open>\<open>obj[k]\<close> on an object literal: own properties first, then the prototype.\<close>

definition get_prop :: "jsobj \<Rightarrow> string \<Rightarrow> jsval" where
  "get_prop obj k =
     (case map_of obj k of
        Some v \<Rightarrow> v
      | None \<Rightarrow> if k \<in> set object_prototype_names then JBuiltin k else JUndefined)"

text \<open>\<open>a ?? b\<close>: the right operand only when the left one is null or undefined.\<close>

definition nullish :: "jsval \<Rightarrow> jsval \<Rightarrow> jsval" where
  "nullish a b = (if a = JUndefined \<or> a = JNull then b else a)"

text \<open>\<open>String.prototype.endsWith\<close>.\<close>

definition endsWith :: "string \<Rightarrow> string \<Rightarrow> bool" where
  "endsWith s suf =
     (length suf \<le> length s \<and> drop (length s - length suf) s = suf)"

text \<open>\<open>Array.prototype.join\<close> on an array of strings.\<close>

fun join :: "string \<Rightarrow> string list \<Rightarrow> string" where
  "join sep [] = []"
| "join sep [x] = x"
| "join sep (x # y # ys) = x @ sep @ join sep (y # ys)"

section \<open>Input schema\<close>

datatype fieldType =
    Text | Number | Checkbox | Date | DateTime | Email | Phone | Url | Currency
  | Percent | TextArea | LongTextArea | RichTextArea | Picklist | MultiselectPicklist
  | Lookup | MasterDetail

text \<open>The string each member of \<open>fieldTypeEnum\<close> is at run time.\<close>

fun fieldTypeName :: "fieldType \<Rightarrow> string" where
  "fieldTypeName Text = ''Text''"
| "fieldTypeName Number = ''Number''"
| "fieldTypeName Checkbox = ''Checkbox''"
| "fieldTypeName Date = ''Date''"
| "fieldTypeName DateTime = ''DateTime''"
| "fieldTypeName Email = ''Email''"
| "fieldTypeName Phone = ''Phone''"
| "fieldTypeName Url = ''Url''"
| "fieldTypeName Currency = ''Currency''"
| "fieldTypeName Percent = ''Percent''"
| "fieldTypeName TextArea = ''TextArea''"
| "fieldTypeName LongTextArea = ''LongTextArea''"
| "fieldTypeName RichTextArea = ''RichTextArea''"
| "fieldTypeName Picklist = ''Picklist''"
| "fieldTypeName MultiselectPicklist = ''MultiselectPicklist''"
| "fieldTypeName Lookup = ''Lookup''"
| "fieldTypeName MasterDetail = ''MasterDetail''"

datatype deleteConstraint = SetNull | Restrict | Cascade

fun deleteConstraintName :: "deleteConstraint \<Rightarrow> string" where
  "deleteConstraintName SetNull = ''SetNull''"
| "deleteConstraintName Restrict = ''Restrict''"
| "deleteConstraintName Cascade = ''Cascade''"

record PicklistValue =
  pv_value :: string
  isDefault :: "bool option"

text \<open>
  \<open>fieldDefinitionSchema\<close>. An optional property is an \<open>option\<close>; \<open>None\<close> reads as
  \<open>undefined\<close>. The fields \<open>type\<close> and \<open>length\<close> of the source are \<open>field_type\<close> and
  \<open>length_opt\<close> here.
\<close>

record FieldDefinition =
  objectApiName :: string
  fieldApiName :: string
  label :: string
  field_type :: fieldType
  description :: "string option"
  helpText :: "string option"
  required :: "bool option"
  unique :: "bool option"
  externalId :: "bool option"
  length_opt :: "real option"
  precision :: "real option"
  scale :: "real option"
  visibleLines :: "real option"
  picklistValues :: "PicklistValue list option"
  referenceTo :: "string option"
  relationshipName :: "string option"
  relationshipLabel :: "string option"
  deleteConstraint :: "deleteConstraint option"

record PermissionAssignment =
  permissionSetOrProfile :: string
  readable :: bool
  editable :: bool

text \<open>An optional input property as the JavaScript value it is.\<close>

definition opt_str :: "string option \<Rightarrow> jsval" where
  "opt_str s = (case s of None \<Rightarrow> JUndefined | Some x \<Rightarrow> JStr x)"

definition opt_bool :: "bool option \<Rightarrow> jsval" where
  "opt_bool b = (case b of None \<Rightarrow> JUndefined | Some x \<Rightarrow> JBool x)"

definition opt_num :: "real option \<Rightarrow> jsval" where
  "opt_num n = (case n of None \<Rightarrow> JUndefined | Some x \<Rightarrow> JNum x)"

section \<open>Field type mapper\<close>

definition typeMap :: jsobj where
  "typeMap =
     [(''Text'', JStr ''Text''),
      (''Number'', JStr ''Number''),
      (''Checkbox'', JStr ''Checkbox''),
      (''Date'', JStr ''Date''),
      (''DateTime'', JStr ''DateTime''),
      (''Email'', JStr ''Email''),
      (''Phone'', JStr ''Phone''),
      (''Url'', JStr ''Url''),
      (''Currency'', JStr ''Currency''),
      (''Percent'', JStr ''Percent''),
      (''TextArea'', JStr ''TextArea''),
      (''LongTextArea'', JStr ''LongTextArea''),
      (''RichTextArea'', JStr ''Html''),
      (''Picklist'', JStr ''Picklist''),
      (''MultiselectPicklist'', JStr ''MultiselectPicklist''),
      (''Lookup'', JStr ''Lookup''),
      (''MasterDetail'', JStr ''MasterDetail'')]"

text \<open>\<open>mapFieldType\<close>: \<open>typeMap[type] ?? type\<close>.\<close>

definition mapFieldType :: "string \<Rightarrow> jsval" where
  "mapFieldType ty = nullish (get_prop typeMap ty) (JStr ty)"

section \<open>Field metadata builder\<close>

text \<open>The entry built for one picklist value (the arrow function of lines 242 to 246).\<close>

definition picklistEntry :: "PicklistValue \<Rightarrow> jsval" where
  "picklistEntry pv =
     JObj [(''fullName'', JStr (pv_value pv)),
           (''default'', nullish (opt_bool (isDefault pv)) (JBool False)),
           (''label'', JStr (pv_value pv))]"

text \<open>The object literal of lines 206 to 214.\<close>

definition baseMetadata :: "FieldDefinition \<Rightarrow> jsobj" where
  "baseMetadata field =
     [(''label'', JStr (label field)),
      (''type'', mapFieldType (fieldTypeName (field_type field))),
      (''description'', opt_str (description field)),
      (''inlineHelpText'', opt_str (helpText field)),
      (''required'', nullish (opt_bool (required field)) (JBool False)),
      (''unique'', nullish (opt_bool (unique field)) (JBool False)),
      (''externalId'', nullish (opt_bool (externalId field)) (JBool False))]"

text \<open>The \<open>switch\<close> of lines 217 to 263, applied to the object built so far.\<close>

definition picklistCase :: "FieldDefinition \<Rightarrow> jsobj \<Rightarrow> jsobj" where
  "picklistCase field metadata =
     (let m1 =
        (case picklistValues field of
           None \<Rightarrow> metadata
         | Some pvs \<Rightarrow>
             if length pvs > 0 then
               set_prop metadata ''valueSet''
                 (JObj [(''restricted'', JBool True),
                        (''valueSetDefinition'',
                           JObj [(''sorted'', JBool False),
                                 (''value'', JArr (map picklistEntry pvs))])])
             else metadata)
      in if field_type field = MultiselectPicklist
         then set_prop m1 ''visibleLines'' (nullish (opt_num (visibleLines field)) (JNum 4))
         else m1)"

definition lookupCase :: "FieldDefinition \<Rightarrow> jsobj \<Rightarrow> jsobj" where
  "lookupCase field metadata =
     (let m1 = set_prop metadata ''referenceTo'' (opt_str (referenceTo field));
          m2 = set_prop m1 ''relationshipName''
                 (nullish (opt_str (relationshipName field)) (JStr (fieldApiName field @ ''s'')));
          m3 = set_prop m2 ''relationshipLabel''
                 (nullish (opt_str (relationshipLabel field)) (JStr (label field @ ''s'')))
      in if field_type field = Lookup
         then set_prop m3 ''deleteConstraint''
                (nullish (case deleteConstraint field of
                            None \<Rightarrow> JUndefined
                          | Some d \<Rightarrow> JStr (deleteConstraintName d))
                         (JStr ''SetNull''))
         else m3)"

definition numberCase :: "FieldDefinition \<Rightarrow> jsobj \<Rightarrow> jsobj" where
  "numberCase field metadata =
     set_prop (set_prop metadata ''precision'' (nullish (opt_num (precision field)) (JNum 18)))
       ''scale'' (nullish (opt_num (scale field)) (JNum 2))"

definition longTextCase :: "FieldDefinition \<Rightarrow> jsobj \<Rightarrow> jsobj" where
  "longTextCase field metadata =
     set_prop (set_prop metadata ''length'' (nullish (opt_num (length_opt field)) (JNum 32768)))
       ''visibleLines'' (nullish (opt_num (visibleLines field)) (JNum 6))"

fun typeSpecific :: "fieldType \<Rightarrow> FieldDefinition \<Rightarrow> jsobj \<Rightarrow> jsobj" where
  "typeSpecific Text field m =
     set_prop m ''length'' (nullish (opt_num (length_opt field)) (JNum 255))"
| "typeSpecific Number field m = numberCase field m"
| "typeSpecific Currency field m = numberCase field m"
| "typeSpecific Percent field m = numberCase field m"
| "typeSpecific TextArea field m =
     set_prop m ''length'' (nullish (opt_num (length_opt field)) (JNum 255))"
| "typeSpecific LongTextArea field m = longTextCase field m"
| "typeSpecific RichTextArea field m = longTextCase field m"
| "typeSpecific Picklist field m = picklistCase field m"
| "typeSpecific MultiselectPicklist field m = picklistCase field m"
| "typeSpecific Lookup field m = lookupCase field m"
| "typeSpecific MasterDetail field m = lookupCase field m"
| "typeSpecific _ field m = m"

text \<open>\<open>buildFieldMetadata\<close>; the last line removes the properties whose value is undefined.\<close>

definition buildFieldMetadata :: "FieldDefinition \<Rightarrow> jsobj" where
  "buildFieldMetadata field =
     (let metadata = typeSpecific (field_type field) field (baseMetadata field)
      in fromEntries (filter (\<lambda>(k, v). v \<noteq> JUndefined) metadata))"

text \<open>The item submitted for one field (the arrow function of lines 166 to 175).\<close>

definition fullFieldName :: "FieldDefinition \<Rightarrow> string" where
  "fullFieldName field =
     (if endsWith (fieldApiName field) ''__c''
      then fieldApiName field
      else fieldApiName field @ ''__c'')"

definition metadataItem :: "FieldDefinition \<Rightarrow> jsobj" where
  "metadataItem field =
     assign_all
       [(''type'', JStr ''CustomField''),
        (''fullName'', JStr (objectApiName field @ ''.'' @ fullFieldName field))]
       (buildFieldMetadata field)"

section \<open>Remote service, exceptions and the process\<close>

text \<open>A thrown value; the program only ever reads its \<open>message\<close>.\<close>

datatype exn = Error (message: string)

text \<open>
  The exception of reading property \<open>p\<close> of \<open>undefined\<close> (the text is the one of
  Node's engine).
\<close>

definition typeError_undefined :: "string \<Rightarrow> exn" where
  "typeError_undefined p =
     Error (''Cannot read properties of undefined (reading '' @ [CHR 0x27] @ p @ [CHR 0x27] @ '')'')"

datatype SaveError = SaveError (err_message: string)

text \<open>The \<open>errors\<close> property of an outcome: missing, one error, or an array of errors.\<close>

datatype errors_field = ErrUndefined | ErrOne SaveError | ErrMany "SaveError list"

record SaveResult =
  fullName :: string
  success :: bool
  errors :: errors_field

text \<open>What a remote call resolves to: one outcome or an array of outcomes.\<close>

datatype 'a response = Single 'a | Many "'a list"

text \<open>
  The connection is an external collaborator: each of its two calls takes the state of the
  remote side, throws or resolves, and leaves a new remote state.
\<close>

record 'st Connection =
  metadata_create :: "string \<Rightarrow> jsobj list \<Rightarrow> 'st \<Rightarrow> (exn + SaveResult response) \<times> 'st"
  metadata_update :: "string \<Rightarrow> jsobj \<Rightarrow> 'st \<Rightarrow> (exn + SaveResult response) \<times> 'st"

text \<open>
  \<open>getConnection\<close> is the resolver of the org service. \<open>chdir_to\<close> is what
  \<open>process.chdir\<close> does with the current directory and its argument: the new current
  directory, or an exception.
\<close>

record 'st Services =
  getConnection :: "string \<Rightarrow> 'st \<Rightarrow> (exn + 'st Connection) \<times> 'st"
  chdir_to :: "string \<Rightarrow> string \<Rightarrow> exn + string"

datatype event =
    EvChdir string
  | EvGetConnection string
  | EvCreate string "jsobj list"
  | EvUpdate string jsobj

text \<open>
  The world an invocation runs in: the working directory of the process, the calls made
  so far (in order), and the state of the remote side.
\<close>

record 'st world =
  cwd :: string
  trace :: "event list"
  remote :: 'st

definition call_create ::
  "'st Connection \<Rightarrow> string \<Rightarrow> jsobj list \<Rightarrow> 'st world \<Rightarrow> (exn + SaveResult response) \<times> 'st world" where
  "call_create conn kind items w =
     (case metadata_create conn kind items (remote w) of
        (r, s) \<Rightarrow> (r, w\<lparr>trace := trace w @ [EvCreate kind items], remote := s\<rparr>))"

definition call_update ::
  "'st Connection \<Rightarrow> string \<Rightarrow> jsobj \<Rightarrow> 'st world \<Rightarrow> (exn + SaveResult response) \<times> 'st world" where
  "call_update conn kind item w =
     (case metadata_update conn kind item (remote w) of
        (r, s) \<Rightarrow> (r, w\<lparr>trace := trace w @ [EvUpdate kind item], remote := s\<rparr>))"

definition call_getConnection ::
  "'st Services \<Rightarrow> string \<Rightarrow> 'st world \<Rightarrow> (exn + 'st Connection) \<times> 'st world" where
  "call_getConnection services u w =
     (case getConnection services u (remote w) of
        (r, s) \<Rightarrow> (r, w\<lparr>trace := trace w @ [EvGetConnection u], remote := s\<rparr>))"

definition process_chdir ::
  "'st Services \<Rightarrow> string \<Rightarrow> 'st world \<Rightarrow> (exn + unit) \<times> 'st world" where
  "process_chdir services dir w =
     (case chdir_to services (cwd w) dir of
        Inl e \<Rightarrow> (Inl e, w\<lparr>trace := trace w @ [EvChdir dir]\<rparr>)
      | Inr d \<Rightarrow> (Inr (), w\<lparr>cwd := d, trace := trace w @ [EvChdir dir]\<rparr>))"

text \<open>\<open>Array.isArray(x) ? x : [x]\<close> and \<open>Array.isArray(x) ? x[0] : x\<close>.\<close>

fun toArray :: "'a response \<Rightarrow> 'a list" where
  "toArray (Many xs) = xs"
| "toArray (Single x) = [x]"

fun firstOf :: "'a response \<Rightarrow> 'a option" where
  "firstOf (Many []) = None"
| "firstOf (Many (x # xs)) = Some x"
| "firstOf (Single x) = Some x"

text \<open>
  \<open>Array.isArray(r.errors) ? r.errors : [r.errors]\<close>; \<open>None\<close> is an element that is
  \<open>undefined\<close>.
\<close>

fun errorsArray :: "errors_field \<Rightarrow> SaveError option list" where
  "errorsArray (ErrMany es) = map Some es"
| "errorsArray (ErrOne e) = [Some e]"
| "errorsArray ErrUndefined = [None]"

text \<open>\<open>errors.map(e => e.message)\<close>: reading \<open>message\<close> of \<open>undefined\<close> throws.\<close>

fun messages :: "SaveError option list \<Rightarrow> exn + string list" where
  "messages [] = Inr []"
| "messages (None # es) = Inl (typeError_undefined ''message'')"
| "messages (Some e # es) =
     (case messages es of Inl x \<Rightarrow> Inl x | Inr ms \<Rightarrow> Inr (err_message e # ms))"

text \<open>
  \<open>errors.map(e => e?.message).join(', ')\<close>: the optional chain gives \<open>undefined\<close>
  for an element that is \<open>undefined\<close>, and \<open>join\<close> writes it as the empty string.
\<close>

definition safeMessages :: "SaveError option list \<Rightarrow> string" where
  "safeMessages es =
     join '', '' (map (\<lambda>e. case e of None \<Rightarrow> [] | Some x \<Rightarrow> err_message x) es)"

section \<open>Text of a tool result\<close>

text \<open>
  Modelled from the spec: \<open>textResponse\<close> of shared/utils.js is not among the sources.
  The spec says the operation returns a text report plus an error flag, so the result is
  that pair.
\<close>

record CallToolResult =
  content_text :: string
  isError :: bool

definition textResponse :: "string \<Rightarrow> bool \<Rightarrow> CallToolResult" where
  "textResponse t e = \<lparr>content_text = t, isError = e\<rparr>"

text \<open>\<open>SfError.wrap\<close> of the core library keeps the message of what it wraps.\<close>

definition SfError_wrap :: "exn \<Rightarrow> exn" where
  "SfError_wrap e = Error (message e)"

text \<open>A length written in decimal inside a template string.\<close>

fun show_nat :: "nat \<Rightarrow> string" where
  "show_nat n =
     (if n < 10 then [''0123456789'' ! n]
      else show_nat (n div 10) @ [''0123456789'' ! (n mod 10)])"

definition check_mark :: string where
  "check_mark = [CHR 0xE2, CHR 0x9C, CHR 0x93]"

definition cross_mark :: string where
  "cross_mark = [CHR 0xE2, CHR 0x9C, CHR 0x97]"

definition newline :: string where
  "newline = [CHR 0x0A]"

definition dquote :: string where
  "dquote = [CHR 0x22]"

section \<open>Permission assignment engine\<close>

text \<open>The three lines a grantee can end with.\<close>

definition permSetAssigned :: "string \<Rightarrow> string" where
  "permSetAssigned name =
     check_mark @ '' Permission Set '' @ dquote @ name @ dquote @ '': assigned''"

definition profileAssigned :: "string \<Rightarrow> string" where
  "profileAssigned name =
     check_mark @ '' Profile '' @ dquote @ name @ dquote @ '': assigned''"

definition failureLine :: "string \<Rightarrow> string \<Rightarrow> string" where
  "failureLine name msg = cross_mark @ '' '' @ dquote @ name @ dquote @ '': '' @ msg"

text \<open>The grant-list of lines 302 to 306 and the item both update calls are given.\<close>

definition fieldPermissions :: "string list \<Rightarrow> PermissionAssignment \<Rightarrow> jsval" where
  "fieldPermissions fieldNames perm =
     JArr (map (\<lambda>fieldName.
                  JObj [(''field'', JStr fieldName),
                        (''readable'', JBool (readable perm)),
                        (''editable'', JBool (editable perm))])
               fieldNames)"

definition updateItem :: "string list \<Rightarrow> PermissionAssignment \<Rightarrow> jsobj" where
  "updateItem fieldNames perm =
     [(''fullName'', JStr (permissionSetOrProfile perm)),
      (''fieldPermissions'', fieldPermissions fieldNames perm)]"

text \<open>
  The update as Profile with what follows it. The source has this block twice, word for
  word: lines 320 to 331 (after a PermissionSet outcome with \<open>success\<close> false) and lines
  335 to 346 (in the handler of the inner \<open>try\<close>). It throws when the call throws, and
  when the call resolves to an empty array (\<open>pResult\<close> is then \<open>undefined\<close>).
\<close>

definition tryAsProfile ::
  "'st Connection \<Rightarrow> string list \<Rightarrow> PermissionAssignment \<Rightarrow> 'st world \<Rightarrow> (exn + string) \<times> 'st world" where
  "tryAsProfile conn fieldNames perm w =
     (case call_update conn ''Profile'' (updateItem fieldNames perm) w of
        (Inl e, w1) \<Rightarrow> (Inl e, w1)
      | (Inr profileResult, w1) \<Rightarrow>
          (case firstOf profileResult of
             None \<Rightarrow> (Inl (typeError_undefined ''success''), w1)
           | Some pResult \<Rightarrow>
               if success pResult
               then (Inr (profileAssigned (permissionSetOrProfile perm)), w1)
               else (Inr (failureLine (permissionSetOrProfile perm)
                            (safeMessages (errorsArray (errors pResult)))), w1)))"

text \<open>The body of the inner \<open>try\<close>, lines 310 to 332.\<close>

definition tryAsPermissionSet ::
  "'st Connection \<Rightarrow> string list \<Rightarrow> PermissionAssignment \<Rightarrow> 'st world \<Rightarrow> (exn + string) \<times> 'st world" where
  "tryAsPermissionSet conn fieldNames perm w =
     (case call_update conn ''PermissionSet'' (updateItem fieldNames perm) w of
        (Inl e, w1) \<Rightarrow> (Inl e, w1)
      | (Inr updateResult, w1) \<Rightarrow>
          (case firstOf updateResult of
             None \<Rightarrow> (Inl (typeError_undefined ''success''), w1)
           | Some result \<Rightarrow>
               if success result
               then (Inr (permSetAssigned (permissionSetOrProfile perm)), w1)
               else tryAsProfile conn fieldNames perm w1))"

text \<open>
  The body of the outer \<open>try\<close>, lines 301 to 347: the inner \<open>try\<close> with its handler
  \<open>catch (permSetError)\<close>, which catches whatever the inner body throws.
\<close>

definition grantAttempt ::
  "'st Connection \<Rightarrow> string list \<Rightarrow> PermissionAssignment \<Rightarrow> 'st world \<Rightarrow> (exn + string) \<times> 'st world" where
  "grantAttempt conn fieldNames perm w =
     (case tryAsPermissionSet conn fieldNames perm w of
        (Inr line, w1) \<Rightarrow> (Inr line, w1)
      | (Inl permSetError, w1) \<Rightarrow> tryAsProfile conn fieldNames perm w1)"

text \<open>One round of the loop: the outer \<open>try\<close> with its handler (lines 348 to 350).\<close>

definition assignOne ::
  "'st Connection \<Rightarrow> string list \<Rightarrow> PermissionAssignment \<Rightarrow> 'st world \<Rightarrow> string \<times> 'st world" where
  "assignOne conn fieldNames perm w =
     (case grantAttempt conn fieldNames perm w of
        (Inr line, w1) \<Rightarrow> (line, w1)
      | (Inl error, w1) \<Rightarrow> (failureLine (permissionSetOrProfile perm) (message error), w1))"

text \<open>The loop over the permissions; \<open>results\<close> is the array the lines are pushed to.\<close>

fun assignLoop ::
  "'st Connection \<Rightarrow> string list \<Rightarrow> PermissionAssignment list \<Rightarrow> string list \<Rightarrow> 'st world
     \<Rightarrow> string list \<times> 'st world" where
  "assignLoop conn fieldNames [] results w = (results, w)"
| "assignLoop conn fieldNames (perm # rest) results w =
     (case assignOne conn fieldNames perm w of
        (line, w1) \<Rightarrow> assignLoop conn fieldNames rest (results @ [line]) w1)"

definition assignFieldPermissions ::
  "'st Connection \<Rightarrow> string list \<Rightarrow> PermissionAssignment list \<Rightarrow> 'st world \<Rightarrow> string \<times> 'st world" where
  "assignFieldPermissions conn fieldNames permissions w =
     (case assignLoop conn fieldNames permissions [] w of
        (results, w1) \<Rightarrow> (join newline results, w1))"

section \<open>Result summarizer\<close>

definition buildResultSummary :: "string list \<Rightarrow> string list \<Rightarrow> string \<Rightarrow> string" where
  "buildResultSummary successFields failedFields permissionResults =
     (let parts0 = [];
          parts1 =
            (if length successFields > 0
             then parts0 @
               [''Successfully created '' @ show_nat (length successFields) @ '' field(s):'',
                join newline (map (\<lambda>f. ''  '' @ check_mark @ '' '' @ f) successFields)]
             else parts0);
          parts2 =
            (if length failedFields > 0
             then parts1 @
               [newline @ ''Failed to create '' @ show_nat (length failedFields) @ '' field(s):'',
                join newline (map (\<lambda>f. ''  '' @ cross_mark @ '' '' @ f) failedFields)]
             else parts1);
          parts3 =
            (if permissionResults \<noteq> []
             then parts2 @ [newline @ ''Permission assignments:'', permissionResults]
             else parts2)
      in join newline parts3)"

section \<open>Deployment orchestrator\<close>

text \<open>The text pushed to \<open>failedFields\<close> for an outcome without success (lines 188, 189).\<close>

definition failedEntry :: "SaveResult \<Rightarrow> exn + string" where
  "failedEntry result =
     (case messages (errorsArray (errors result)) of
        Inl e \<Rightarrow> Inl e
      | Inr ms \<Rightarrow> Inr (fullName result @ '': '' @ join '', '' ms))"

text \<open>The loop of lines 184 to 191, with the two arrays it pushes to.\<close>

fun partitionLoop ::
  "SaveResult list \<Rightarrow> string list \<Rightarrow> string list \<Rightarrow> exn + (string list \<times> string list)" where
  "partitionLoop [] successFields failedFields = Inr (successFields, failedFields)"
| "partitionLoop (result # rest) successFields failedFields =
     (if success result
      then partitionLoop rest (successFields @ [fullName result]) failedFields
      else (case failedEntry result of
              Inl e \<Rightarrow> Inl e
            | Inr entry \<Rightarrow> partitionLoop rest successFields (failedFields @ [entry])))"

definition deployFieldsAndPermissions ::
  "'st Connection \<Rightarrow> FieldDefinition list \<Rightarrow> PermissionAssignment list option \<Rightarrow> 'st world
     \<Rightarrow> (exn + CallToolResult) \<times> 'st world" where
  "deployFieldsAndPermissions conn fieldDefs permissions w =
     (let metadataItems = map metadataItem fieldDefs in
      case call_create conn ''CustomField'' metadataItems w of
        (Inl e, w1) \<Rightarrow> (Inl e, w1)
      | (Inr deployResult, w1) \<Rightarrow>
          (let results = toArray deployResult in
           case partitionLoop results [] [] of
             Inl e \<Rightarrow> (Inl e, w1)
           | Inr (successFields, failedFields) \<Rightarrow>
               (case (case permissions of
                        None \<Rightarrow> ([], w1)
                      | Some ps \<Rightarrow>
                          if length ps > 0 \<and> length successFields > 0
                          then assignFieldPermissions conn successFields ps w1
                          else ([], w1)) of
                  (permissionResults, w2) \<Rightarrow>
                    (Inr (textResponse
                            (buildResultSummary successFields failedFields permissionResults)
                            (length failedFields > 0)), w2))))"

section \<open>The operation\<close>

record InputArgs =
  input_fields :: "FieldDefinition list"
  permissions :: "PermissionAssignment list option"
  usernameOrAlias :: "string option"
  directory :: string

definition usernameRequired :: string where
  "usernameRequired =
     ''The usernameOrAlias parameter is required. Use the #get_username tool if not specified.''"

text \<open>
  \<open>exec\<close>. The property \<open>fields\<close> of the input is \<open>input_fields\<close> here.
  \<open>!input.usernameOrAlias\<close> holds for a missing identifier and for the empty
  string. \<open>process.chdir\<close> stands before the \<open>try\<close>, so what it throws leaves \<open>exec\<close>.
\<close>

text \<open>Lines 148 to 157: what \<open>exec\<close> does once the identifier \<open>u\<close> is there.\<close>

definition execWith ::
  "'st Services \<Rightarrow> string \<Rightarrow> InputArgs \<Rightarrow> 'st world \<Rightarrow> (exn + CallToolResult) \<times> 'st world" where
  "execWith services u input w =
     (case process_chdir services (directory input) w of
        (Inl e, w1) \<Rightarrow> (Inl e, w1)
      | (Inr _, w1) \<Rightarrow>
          (case call_getConnection services u w1 of
             (Inl error, w2) \<Rightarrow>
               (Inr (textResponse
                       (''Failed to create custom fields: '' @ message (SfError_wrap error))
                       True), w2)
           | (Inr connection, w2) \<Rightarrow>
               (case deployFieldsAndPermissions connection (input_fields input) (permissions input) w2 of
                  (Inl error, w3) \<Rightarrow>
                    (Inr (textResponse
                            (''Failed to create custom fields: '' @ message (SfError_wrap error))
                            True), w3)
                | (Inr result, w3) \<Rightarrow> (Inr result, w3))))"

definition exec ::
  "'st Services \<Rightarrow> InputArgs \<Rightarrow> 'st world \<Rightarrow> (exn + CallToolResult) \<times> 'st world" where
  "exec services input w =
     (case usernameOrAlias input of
        None \<Rightarrow> (Inr (textResponse usernameRequired True), w)
      | Some u \<Rightarrow>
          if u = [] then (Inr (textResponse usernameRequired True), w)
          else execWith services u input w)"

section \<open>What the remote create call answers\<close>

text \<open>The full name under which a field is submitted (line 172).\<close>

definition submittedName :: "FieldDefinition \<Rightarrow> string" where
  "submittedName field = objectApiName field @ ''.'' @ fullFieldName field"



section \<open>Sample inputs and a scripted remote side\<close>

text \<open>
  A connection for concrete runs: the remote state is the list of answers still to give,
  and every call, whatever it asks, takes the next one.
\<close>

definition nextAnswer ::
  "(exn + SaveResult response) list \<Rightarrow> (exn + SaveResult response) \<times> (exn + SaveResult response) list" where
  "nextAnswer s = (case s of [] \<Rightarrow> (Inl (Error ''no answer left''), []) | r # rs \<Rightarrow> (r, rs))"

definition scripted :: "(exn + SaveResult response) list Connection" where
  "scripted =
     \<lparr>metadata_create = (\<lambda>kind items s. nextAnswer s),
      metadata_update = (\<lambda>kind item s. nextAnswer s)\<rparr>"

definition scriptedServices :: "(exn + SaveResult response) list Services" where
  "scriptedServices =
     \<lparr>getConnection = (\<lambda>u s. (Inr scripted, s)),
      chdir_to = (\<lambda>old dir. Inr dir)\<rparr>"

definition startWorld :: "'st \<Rightarrow> 'st world" where
  "startWorld s = \<lparr>cwd = ''/home'', trace = [], remote = s\<rparr>"

definition plainField :: "string \<Rightarrow> string \<Rightarrow> fieldType \<Rightarrow> FieldDefinition" where
  "plainField obj name ty =
     \<lparr>objectApiName = obj, fieldApiName = name, label = name, field_type = ty,
      description = None, helpText = None, required = None, unique = None,
      externalId = None, length_opt = None, precision = None, scale = None,
      visibleLines = None, picklistValues = None, referenceTo = None,
      relationshipName = None, relationshipLabel = None, deleteConstraint = None\<rparr>"

definition salesTeam :: PermissionAssignment where
  "salesTeam = \<lparr>permissionSetOrProfile = ''SalesTeam'', readable = True, editable = False\<rparr>"

definition outcome :: "string \<Rightarrow> bool \<Rightarrow> errors_field \<Rightarrow> SaveResult" where
  "outcome n ok es = \<lparr>fullName = n, success = ok, errors = es\<rparr>"

text \<open>The keys the \<open>switch\<close> of the builder can add to the base object.\<close>

definition typeSpecificKeys :: "string list" where
  "typeSpecificKeys =
     [''length'', ''precision'', ''scale'', ''visibleLines'', ''valueSet'', ''referenceTo'',
      ''relationshipName'', ''relationshipLabel'', ''deleteConstraint'']"

text \<open>Further sample values: fields, grantees, inputs and scripts of remote answers.\<close>

definition abField :: FieldDefinition where
  "abField = (plainField ''Account'' ''Stage'' Picklist)
     \<lparr>picklistValues := Some [\<lparr>pv_value = ''A'', isDefault = Some True\<rparr>,
                               \<lparr>pv_value = ''B'', isDefault = None\<rparr>]\<rparr>"

definition fooField :: FieldDefinition where
  "fooField = plainField ''Object'' ''Foo'' Text"



definition noUserInput :: InputArgs where
  "noUserInput =
     \<lparr>input_fields = [fooField], permissions = Some [salesTeam], usernameOrAlias = None,
      directory = ''/project''\<rparr>"

definition userInput :: InputArgs where
  "userInput =
     \<lparr>input_fields = [fooField], permissions = None, usernameOrAlias = Some ''dev@example.com'',
      directory = ''/project''\<rparr>"

definition flakyScript :: "(exn + SaveResult response) list" where
  "flakyScript =
     [Inr (Single (outcome ''SalesTeam'' False (ErrOne (SaveError ''no such permission set'')))),
      Inl (Error ''socket hang up''),
      Inr (Single (outcome ''SalesTeam'' True ErrUndefined))]"


definition grantFailsScript :: "(exn + SaveResult response) list" where
  "grantFailsScript =
     [Inr (Many [outcome ''Object.Foo__c'' True ErrUndefined]),
      Inl (Error ''timeout''),
      Inr (Single (outcome ''SalesTeam'' False (ErrMany [SaveError ''unknown profile''])))]"

section \<open>Facts about objects\<close>

lemma keys_set_prop: "fst ` set (set_prop ps k v) = insert k (fst ` set ps)"
proof (induction ps)
  case Nil
  show ?case by simp
next
  case (Cons p ps)
  obtain k' v' where p: "p = (k', v')" by (cases p)
  show ?case
  proof (cases "k' = k")
    case True
    then show ?thesis by (simp add: p)
  next
    case False
    then show ?thesis by (simp add: p Cons.IH insert_commute)
  qed
qed

lemma map_of_set_prop: "map_of (set_prop ps k v) = (map_of ps)(k \<mapsto> v)"
  by (induction ps) auto

lemma set_prop_fresh: "k \<notin> fst ` set ps \<Longrightarrow> set_prop ps k v = ps @ [(k, v)]"
  by (induction ps) auto

lemma distinct_set_prop: "distinct (map fst ps) \<Longrightarrow> distinct (map fst (set_prop ps k v))"
  by (induction ps) (auto simp: keys_set_prop)

lemma assign_all_Cons: "assign_all base ((k, v) # es) = assign_all (set_prop base k v) es"
  by (simp add: assign_all_def)

lemma assign_all_Nil: "assign_all base [] = base"
  by (simp add: assign_all_def)

text \<open>
  Assigning entries with fresh, pairwise different keys appends them; so
  \<open>Object.fromEntries\<close> gives back such a list of entries as it is.
\<close>

lemma assign_all_distinct:
  "distinct (map fst (base @ es)) \<Longrightarrow> assign_all base es = base @ es"
proof (induction es arbitrary: base)
  case Nil
  show ?case by (simp add: assign_all_Nil)
next
  case (Cons e es)
  obtain k v where e: "e = (k, v)" by (cases e)
  from Cons.prems e have fresh: "k \<notin> fst ` set base" by auto
  from Cons.prems e have "distinct (map fst ((base @ [(k, v)]) @ es))" by auto
  from Cons.IH [OF this] show ?case
    by (simp add: e assign_all_Cons set_prop_fresh [OF fresh])
qed

lemma fromEntries_distinct: "distinct (map fst es) \<Longrightarrow> fromEntries es = es"
  by (simp add: fromEntries_def assign_all_distinct)

lemma map_of_assign_all_other:
  "k \<notin> fst ` set es \<Longrightarrow> map_of (assign_all base es) k = map_of base k"
proof (induction es arbitrary: base)
  case Nil
  show ?case by (simp add: assign_all_Nil)
next
  case (Cons e es)
  obtain k' v where e: "e = (k', v)" by (cases e)
  from Cons.prems e have "k \<noteq> k'" and "k \<notin> fst ` set es" by auto
  then show ?case by (simp add: e assign_all_Cons Cons.IH map_of_set_prop)
qed

lemma map_of_filter_values:
  "distinct (map fst xs) \<Longrightarrow>
   map_of (filter (\<lambda>(k, v). Q v) xs) k =
     (case map_of xs k of None \<Rightarrow> None | Some v \<Rightarrow> if Q v then Some v else None)"
proof (induction xs)
  case Nil
  show ?case by simp
next
  case (Cons x xs)
  obtain k' v' where x: "x = (k', v')" by (cases x)
  from Cons.prems x have notin: "k' \<notin> fst ` set xs" by auto
  then have none: "map_of xs k' = None" by (simp add: map_of_eq_None_iff)
  from Cons show ?case by (auto simp: x none)
qed

section \<open>Facts about the builder\<close>

lemmas case_defs = numberCase_def longTextCase_def picklistCase_def lookupCase_def

lemma typeSpecific_distinct:
  "distinct (map fst m) \<Longrightarrow> distinct (map fst (typeSpecific t f m))"
  by (cases t) (simp_all add: case_defs Let_def distinct_set_prop split: option.splits)

lemma typeSpecific_other:
  "k \<notin> set typeSpecificKeys \<Longrightarrow> map_of (typeSpecific t f m) k = map_of m k"
  by (cases t)
     (auto simp: case_defs Let_def map_of_set_prop typeSpecificKeys_def split: option.splits)

lemma typeSpecific_keys:
  "fst ` set (typeSpecific t f m) \<subseteq> fst ` set m \<union> set typeSpecificKeys"
  by (cases t)
     (auto simp: case_defs Let_def keys_set_prop typeSpecificKeys_def split: option.splits)

lemma baseMetadata_distinct: "distinct (map fst (baseMetadata f))"
  by (simp add: baseMetadata_def)

text \<open>The payload is the object of the \<open>switch\<close> without its undefined properties.\<close>

lemma buildFieldMetadata_filter:
  "buildFieldMetadata f =
     filter (\<lambda>(k, v). v \<noteq> JUndefined) (typeSpecific (field_type f) f (baseMetadata f))"
proof -
  have "distinct (map fst (typeSpecific (field_type f) f (baseMetadata f)))"
    by (rule typeSpecific_distinct [OF baseMetadata_distinct])
  then have "distinct (map fst (filter (\<lambda>(k, v). v \<noteq> JUndefined)
      (typeSpecific (field_type f) f (baseMetadata f))))"
    by (rule distinct_map_filter)
  then show ?thesis
    by (simp add: buildFieldMetadata_def Let_def fromEntries_distinct)
qed

lemma own_prop_buildFieldMetadata:
  "own_prop (buildFieldMetadata f) k =
     (case map_of (typeSpecific (field_type f) f (baseMetadata f)) k of
        None \<Rightarrow> None
      | Some v \<Rightarrow> if v \<noteq> JUndefined then Some v else None)"
  unfolding own_prop_def buildFieldMetadata_filter
  by (rule map_of_filter_values [OF typeSpecific_distinct [OF baseMetadata_distinct]])

lemma buildFieldMetadata_keys:
  "fst ` set (buildFieldMetadata f) \<subseteq> fst ` set (baseMetadata f) \<union> set typeSpecificKeys"
  using typeSpecific_keys [of "field_type f" f "baseMetadata f"]
  by (auto simp: buildFieldMetadata_filter)

lemma fullName_not_built: "''fullName'' \<notin> fst ` set (buildFieldMetadata f)"
proof -
  have "''fullName'' \<notin> fst ` set (baseMetadata f) \<union> set typeSpecificKeys"
    by (simp add: baseMetadata_def typeSpecificKeys_def)
  then show ?thesis using buildFieldMetadata_keys [of f] by blast
qed

lemma metadataItem_submittedName:
  "own_prop (metadataItem field) ''fullName'' = Some (JStr (submittedName field))"
  unfolding own_prop_def metadataItem_def submittedName_def
  by (simp add: map_of_assign_all_other [OF fullName_not_built])





text \<open>
  A name that an object literal inherits is found by the lookup, and \<open>??\<close> keeps what
  was found. No name of the schema is such a name, so no validated field reaches the
  mapper with one.
\<close>

lemma mapFieldType_inherited:
  "mapFieldType ''constructor'' = JBuiltin ''constructor''
   \<and> mapFieldType ''constructor'' \<noteq> JStr ''constructor''
   \<and> ''constructor'' \<notin> set (map fieldTypeName
        [Text, Number, Checkbox, Date, DateTime, Email, Phone, Url, Currency, Percent,
         TextArea, LongTextArea, RichTextArea, Picklist, MultiselectPicklist, Lookup,
         MasterDetail])"
  by (simp add: mapFieldType_def get_prop_def typeMap_def nullish_def object_prototype_names_def)

section \<open>Facts about the permission loop\<close>

lemmas grant_defs = assignOne_def grantAttempt_def tryAsPermissionSet_def tryAsProfile_def
  call_update_def scripted_def nextAnswer_def startWorld_def outcome_def

text \<open>
  When the PermissionSet call throws, the handler runs the Profile block once. When it
  resolves to an outcome without success, the Profile block runs inside the \<open>try\<close>,
  and runs a second time in the handler if its first run throws.
\<close>

lemma grantAttempt_after_throw:
  "call_update conn ''PermissionSet'' (updateItem fns perm) w = (Inl e, w1) \<Longrightarrow>
   grantAttempt conn fns perm w = tryAsProfile conn fns perm w1"
  by (simp add: grantAttempt_def tryAsPermissionSet_def)

lemma grantAttempt_after_declared_failure:
  "call_update conn ''PermissionSet'' (updateItem fns perm) w = (Inr resp, w1) \<Longrightarrow>
   firstOf resp = Some r \<Longrightarrow> \<not> success r \<Longrightarrow>
   grantAttempt conn fns perm w =
     (case tryAsProfile conn fns perm w1 of
        (Inr line, w2) \<Rightarrow> (Inr line, w2)
      | (Inl e, w2) \<Rightarrow> tryAsProfile conn fns perm w2)"
  by (simp add: grantAttempt_def tryAsPermissionSet_def)








section \<open>Facts about the orchestrator\<close>

lemmas deploy_defs = deployFieldsAndPermissions_def call_create_def assignFieldPermissions_def
  failedEntry_def textResponse_def buildResultSummary_def










text \<open>Only \<open>process.chdir\<close> touches the working directory.\<close>

lemma call_update_cwd: "cwd (snd (call_update conn kind item w)) = cwd w"
  by (simp add: call_update_def split: prod.splits)

lemma call_create_cwd: "cwd (snd (call_create conn kind items w)) = cwd w"
  by (simp add: call_create_def split: prod.splits)

lemma call_getConnection_cwd: "cwd (snd (call_getConnection services u w)) = cwd w"
  by (simp add: call_getConnection_def split: prod.splits)

lemma tryAsProfile_cwd: "cwd (snd (tryAsProfile conn fns perm w)) = cwd w"
  using call_update_cwd [of conn "''Profile''" "updateItem fns perm" w]
  by (auto simp: tryAsProfile_def split: prod.splits sum.splits option.splits)

lemma tryAsPermissionSet_cwd: "cwd (snd (tryAsPermissionSet conn fns perm w)) = cwd w"
  using call_update_cwd [of conn "''PermissionSet''" "updateItem fns perm" w]
  by (auto simp: tryAsPermissionSet_def tryAsProfile_cwd split: prod.splits sum.splits option.splits)

lemma grantAttempt_cwd: "cwd (snd (grantAttempt conn fns perm w)) = cwd w"
  using tryAsPermissionSet_cwd [of conn fns perm w]
  by (auto simp: grantAttempt_def tryAsProfile_cwd split: prod.splits sum.splits)

lemma assignOne_cwd: "cwd (snd (assignOne conn fns perm w)) = cwd w"
  using grantAttempt_cwd [of conn fns perm w]
  by (auto simp: assignOne_def split: prod.splits sum.splits)

lemma assignLoop_cwd: "cwd (snd (assignLoop conn fns perms acc w)) = cwd w"
proof (induction perms arbitrary: acc w)
  case Nil
  show ?case by simp
next
  case (Cons p ps)
  obtain l w0 where one: "assignOne conn fns p w = (l, w0)" by (cases "assignOne conn fns p w")
  from assignOne_cwd [of conn fns p w] one have "cwd w0 = cwd w" by simp
  with Cons.IH [of "acc @ [l]" w0] one show ?case by simp
qed

lemma assignFieldPermissions_cwd:
  "cwd (snd (assignFieldPermissions conn fns perms w)) = cwd w"
  using assignLoop_cwd [of conn fns perms "[]" w]
  by (auto simp: assignFieldPermissions_def split: prod.splits)

lemma deploy_cwd:
  "cwd (snd (deployFieldsAndPermissions conn fds perms w)) = cwd w"
proof (cases "call_create conn ''CustomField'' (map metadataItem fds) w")
  case (Pair r w1)
  from call_create_cwd [of conn "''CustomField''" "map metadataItem fds" w] Pair
  have w1: "cwd w1 = cwd w" by simp
  show ?thesis
  proof (cases r)
    case (Inl e)
    with Pair w1 show ?thesis by (simp add: deployFieldsAndPermissions_def)
  next
    case (Inr resp)
    show ?thesis
    proof (cases "partitionLoop (toArray resp) [] []")
      case (Inl e)
      with Pair Inr w1 show ?thesis by (simp add: deployFieldsAndPermissions_def)
    next
      case part: (Inr p)
      obtain sf ff where p: "p = (sf, ff)" by (cases p)
      have *: "cwd (snd (case perms of None \<Rightarrow> ([], w1)
                 | Some ps \<Rightarrow> if length ps > 0 \<and> length sf > 0
                     then assignFieldPermissions conn sf ps w1 else ([], w1))) = cwd w"
        by (simp add: w1 assignFieldPermissions_cwd split: option.splits)
      from Pair Inr part p * show ?thesis
        by (auto simp: deployFieldsAndPermissions_def Let_def split: prod.splits)
    qed
  qed
qed

lemma execWith_cwd:
  assumes "chdir_to services (cwd w) (directory input) = Inr d"
  shows "cwd (snd (execWith services u input w)) = d"
proof -
  define w1 where "w1 = w\<lparr>cwd := d, trace := trace w @ [EvChdir (directory input)]\<rparr>"
  have ch: "process_chdir services (directory input) w = (Inr (), w1)"
    using assms by (simp add: process_chdir_def w1_def)
  have w1: "cwd w1 = d" by (simp add: w1_def)
  obtain r w2 where gc: "call_getConnection services u w1 = (r, w2)"
    by (cases "call_getConnection services u w1")
  from call_getConnection_cwd [of services u w1] gc w1 have w2: "cwd w2 = d" by simp
  show ?thesis
  proof (cases r)
    case (Inl e)
    with ch gc w2 show ?thesis by (simp add: execWith_def)
  next
    case (Inr conn)
    from deploy_cwd [of conn "input_fields input" "permissions input" w2] w2
    have "cwd (snd (deployFieldsAndPermissions conn (input_fields input) (permissions input) w2)) = d"
      by simp
    with ch gc Inr show ?thesis
      by (auto simp: execWith_def split: prod.splits sum.splits)
  qed
qed

section \<open>The claims\<close>

text \<open>
  C1. The claim: when the PermissionSet update throws or resolves with \<open>success\<close> false,
  the same grant-list is retried as Profile and the result of that retry is the line of
  the grantee. The run below has a PermissionSet outcome without success, a first Profile
  update that throws \<open>socket hang up\<close> and a second one that succeeds. The Profile
  update inside the \<open>try\<close> throws, the handler written for the PermissionSet error
  catches it and updates as Profile once more: the remote side sees three calls, and the
  line reports success although the retry failed.
\<close>

theorem profile_retried_twice:
  "tryAsPermissionSet scripted [''Object.Foo__c''] salesTeam (startWorld flakyScript) =
     (Inl (Error ''socket hang up''),
      \<lparr>cwd = ''/home'',
       trace = [EvUpdate ''PermissionSet'' (updateItem [''Object.Foo__c''] salesTeam),
                EvUpdate ''Profile'' (updateItem [''Object.Foo__c''] salesTeam)],
       remote = [Inr (Single (outcome ''SalesTeam'' True ErrUndefined))]\<rparr>)
   \<and> assignOne scripted [''Object.Foo__c''] salesTeam (startWorld flakyScript) =
     (profileAssigned ''SalesTeam'',
      \<lparr>cwd = ''/home'',
       trace = [EvUpdate ''PermissionSet'' (updateItem [''Object.Foo__c''] salesTeam),
                EvUpdate ''Profile'' (updateItem [''Object.Foo__c''] salesTeam),
                EvUpdate ''Profile'' (updateItem [''Object.Foo__c''] salesTeam)],
       remote = []\<rparr>)"
  by (simp add: grant_defs flakyScript_def salesTeam_def)

text \<open>
  C2. Whenever the create call resolves and the outcomes are partitioned into
  \<open>successFields\<close> and \<open>failedFields\<close>, the orchestrator returns a result, and its
  error flag is set exactly when \<open>failedFields\<close> is not empty, whatever the permission
  phase does.
\<close>

theorem error_flag_iff_failedFields:
  assumes "call_create conn ''CustomField'' (map metadataItem fds) w = (Inr resp, w1)"
    and "partitionLoop (toArray resp) [] [] = Inr (sf, ff)"
  shows "\<exists>summary w2.
           deployFieldsAndPermissions conn fds perms w =
             (Inr \<lparr>content_text = summary, isError = (ff \<noteq> [])\<rparr>, w2)"
  using assms
  by (simp add: deployFieldsAndPermissions_def Let_def textResponse_def
        split: prod.splits option.splits)

text \<open>
  A run for C2: the field is created, the grantee fails as PermissionSet (the call
  throws) and as Profile (declared failure); the flag stays false.
\<close>

theorem error_flag_iff_failedFields_witness:
  "partitionLoop (toArray (Many [outcome ''Object.Foo__c'' True ErrUndefined])) [] [] =
     Inr ([''Object.Foo__c''], [])
   \<and> fst (assignFieldPermissions scripted [''Object.Foo__c''] [salesTeam]
            \<lparr>cwd = ''/home'',
             trace = [EvCreate ''CustomField'' (map metadataItem [fooField])],
             remote = tl grantFailsScript\<rparr>) =
       failureLine ''SalesTeam'' ''unknown profile''
   \<and> (\<exists>summary w2.
         deployFieldsAndPermissions scripted [fooField] (Some [salesTeam])
           (startWorld grantFailsScript) =
             (Inr \<lparr>content_text = summary, isError = False\<rparr>, w2))"
proof -
  have c: "call_create scripted ''CustomField'' (map metadataItem [fooField])
             (startWorld grantFailsScript) =
           (Inr (Many [outcome ''Object.Foo__c'' True ErrUndefined]),
            \<lparr>cwd = ''/home'',
             trace = [EvCreate ''CustomField'' (map metadataItem [fooField])],
             remote = tl grantFailsScript\<rparr>)"
    by (simp add: call_create_def scripted_def nextAnswer_def startWorld_def grantFailsScript_def)
  have p: "partitionLoop (toArray (Many [outcome ''Object.Foo__c'' True ErrUndefined])) [] [] =
     Inr ([''Object.Foo__c''], [])"
    by (simp add: outcome_def)
  have g: "fst (assignFieldPermissions scripted [''Object.Foo__c''] [salesTeam]
            \<lparr>cwd = ''/home'',
             trace = [EvCreate ''CustomField'' (map metadataItem [fooField])],
             remote = tl grantFailsScript\<rparr>) =
       failureLine ''SalesTeam'' ''unknown profile''"
    by (simp add: assignFieldPermissions_def grant_defs grantFailsScript_def salesTeam_def
          safeMessages_def)
  show ?thesis
    using error_flag_iff_failedFields [OF c p, of "Some [salesTeam]"] p g by simp
qed

text \<open>
  C3. The submitted item has the property \<open>fullName\<close>, equal to the object name, a dot
  and the field name, to which \<open>__c\<close> is appended exactly when the field name does not
  end in it. Nothing the builder returns overrides it. \<open>Foo\<close> and \<open>Foo__c\<close> on
  \<open>Object\<close> both give \<open>Object.Foo__c\<close>.
\<close>

theorem metadataItem_fullName:
  "own_prop (metadataItem field) ''fullName'' =
     Some (JStr (objectApiName field @ ''.'' @
       (if endsWith (fieldApiName field) ''__c''
        then fieldApiName field else fieldApiName field @ ''__c'')))
   \<and> own_prop (metadataItem (field\<lparr>objectApiName := ''Object'', fieldApiName := ''Foo''\<rparr>))
         ''fullName'' = Some (JStr ''Object.Foo__c'')
   \<and> own_prop (metadataItem (field\<lparr>objectApiName := ''Object'', fieldApiName := ''Foo__c''\<rparr>))
         ''fullName'' = Some (JStr ''Object.Foo__c'')"
proof -
  have gen: "own_prop (metadataItem g) ''fullName'' =
               Some (JStr (objectApiName g @ ''.'' @ fullFieldName g))" for g
    unfolding own_prop_def metadataItem_def
    by (simp add: map_of_assign_all_other [OF fullName_not_built])
  show ?thesis
    by (simp add: gen fullFieldName_def endsWith_def)
qed



text \<open>
  C5. For a Picklist or MultiselectPicklist field with a non-empty \<open>picklistValues\<close>,
  the payload has a \<open>valueSet\<close> that is restricted and not sorted, with one entry for
  each input value in input order; the entry has the value as \<open>fullName\<close> and as
  \<open>label\<close>, and \<open>default\<close> is \<open>isDefault\<close>, or false when that is missing.
\<close>

theorem picklist_valueSet:
  assumes "field_type field = Picklist \<or> field_type field = MultiselectPicklist"
    and "picklistValues field = Some pvs"
    and "pvs \<noteq> []"
  shows "own_prop (buildFieldMetadata field) ''valueSet'' =
     Some (JObj [(''restricted'', JBool True),
                 (''valueSetDefinition'',
                    JObj [(''sorted'', JBool False),
                          (''value'',
                             JArr (map (\<lambda>pv.
                                JObj [(''fullName'', JStr (pv_value pv)),
                                      (''default'',
                                         JBool (case isDefault pv of None \<Rightarrow> False
                                                | Some b \<Rightarrow> b)),
                                      (''label'', JStr (pv_value pv))]) pvs))])])"
proof -
  have entry: "picklistEntry pv =
      JObj [(''fullName'', JStr (pv_value pv)),
            (''default'', JBool (case isDefault pv of None \<Rightarrow> False | Some b \<Rightarrow> b)),
            (''label'', JStr (pv_value pv))]" for pv
    by (simp add: picklistEntry_def nullish_def opt_bool_def split: option.splits)
  from assms show ?thesis
    by (auto simp: own_prop_buildFieldMetadata picklistCase_def Let_def map_of_set_prop entry)
qed

text \<open>The example of C5: values A (default) and B.\<close>

theorem picklist_valueSet_witness:
  "own_prop (buildFieldMetadata abField) ''valueSet'' =
     Some (JObj [(''restricted'', JBool True),
                 (''valueSetDefinition'',
                    JObj [(''sorted'', JBool False),
                          (''value'',
                             JArr [JObj [(''fullName'', JStr ''A''), (''default'', JBool True),
                                         (''label'', JStr ''A'')],
                                   JObj [(''fullName'', JStr ''B''), (''default'', JBool False),
                                         (''label'', JStr ''B'')]])])])"
proof -
  have t: "field_type abField = Picklist \<or> field_type abField = MultiselectPicklist"
    by (simp add: abField_def plainField_def)
  have p: "picklistValues abField = Some [\<lparr>pv_value = ''A'', isDefault = Some True\<rparr>,
                               \<lparr>pv_value = ''B'', isDefault = None\<rparr>]"
    by (simp add: abField_def plainField_def)
  show ?thesis using picklist_valueSet [OF t p] by simp
qed

text \<open>
  C6. No property of the payload has the value undefined. In particular
  \<open>description\<close> and \<open>inlineHelpText\<close> are in the payload exactly when the input gives
  them, with the value given.
\<close>

theorem buildFieldMetadata_no_undefined:
  "(\<forall>(k, v) \<in> set (buildFieldMetadata field). v \<noteq> JUndefined)
   \<and> own_prop (buildFieldMetadata field) ''description'' = map_option JStr (description field)
   \<and> own_prop (buildFieldMetadata field) ''inlineHelpText'' = map_option JStr (helpText field)"
proof -
  have a: "\<forall>(k, v) \<in> set (buildFieldMetadata field). v \<noteq> JUndefined"
    by (auto simp: buildFieldMetadata_filter)
  have nd: "''description'' \<notin> set typeSpecificKeys" by (simp add: typeSpecificKeys_def)
  have nh: "''inlineHelpText'' \<notin> set typeSpecificKeys" by (simp add: typeSpecificKeys_def)
  have b: "own_prop (buildFieldMetadata field) ''description'' = map_option JStr (description field)"
    by (simp add: own_prop_buildFieldMetadata typeSpecific_other [OF nd] baseMetadata_def
          opt_str_def split: option.splits)
  have c: "own_prop (buildFieldMetadata field) ''inlineHelpText'' = map_option JStr (helpText field)"
    by (simp add: own_prop_buildFieldMetadata typeSpecific_other [OF nh] baseMetadata_def
          opt_str_def split: option.splits)
  from a b c show ?thesis by blast
qed

text \<open>
  A payload for C6: a Lookup field without description, help text and \<open>referenceTo\<close>;
  none of the three keys is in the payload.
\<close>

theorem buildFieldMetadata_no_undefined_witness:
  "buildFieldMetadata (plainField ''Account'' ''Note'' Lookup) =
       [(''label'', JStr ''Note''), (''type'', JStr ''Lookup''), (''required'', JBool False),
        (''unique'', JBool False), (''externalId'', JBool False),
        (''relationshipName'', JStr ''Notes''), (''relationshipLabel'', JStr ''Notes''),
        (''deleteConstraint'', JStr ''SetNull'')]
   \<and> JUndefined \<notin> snd ` set (buildFieldMetadata (plainField ''Account'' ''Note'' Lookup))
   \<and> own_prop (buildFieldMetadata (plainField ''Account'' ''Note'' Lookup)) ''description'' = None
   \<and> own_prop (buildFieldMetadata (plainField ''Account'' ''Note'' Lookup)) ''inlineHelpText'' = None"
proof -
  have payload: "buildFieldMetadata (plainField ''Account'' ''Note'' Lookup) =
       [(''label'', JStr ''Note''), (''type'', JStr ''Lookup''), (''required'', JBool False),
        (''unique'', JBool False), (''externalId'', JBool False),
        (''relationshipName'', JStr ''Notes''), (''relationshipLabel'', JStr ''Notes''),
        (''deleteConstraint'', JStr ''SetNull'')]"
    by (simp add: buildFieldMetadata_def plainField_def baseMetadata_def lookupCase_def
          fromEntries_def assign_all_def nullish_def opt_str_def opt_bool_def mapFieldType_def
          get_prop_def typeMap_def Let_def)
  have given: "description (plainField ''Account'' ''Note'' Lookup) = None"
    "helpText (plainField ''Account'' ''Note'' Lookup) = None"
    by (simp_all add: plainField_def)
  from buildFieldMetadata_no_undefined [of "plainField ''Account'' ''Note'' Lookup"]
  have "JUndefined \<notin> snd ` set (buildFieldMetadata (plainField ''Account'' ''Note'' Lookup))"
    and "own_prop (buildFieldMetadata (plainField ''Account'' ''Note'' Lookup)) ''description'' = None"
    and "own_prop (buildFieldMetadata (plainField ''Account'' ''Note'' Lookup)) ''inlineHelpText'' = None"
    by (auto simp: given)
  with payload show ?thesis by blast
qed





text \<open>
  C9. When the identifier is missing (or empty), \<open>exec\<close> returns the fixed message
  with the error flag set, and makes no call: the trace and the remote state are the ones
  it started with.
\<close>

theorem missing_identifier_rejected:
  assumes "usernameOrAlias input = None \<or> usernameOrAlias input = Some []"
  shows "fst (exec services input w) =
           Inr \<lparr>content_text = usernameRequired, isError = True\<rparr>
         \<and> trace (snd (exec services input w)) = trace w
         \<and> remote (snd (exec services input w)) = remote w"
  using assms by (auto simp: exec_def textResponse_def)

text \<open>A run for C9.\<close>

theorem missing_identifier_rejected_witness:
  "fst (exec scriptedServices noUserInput (startWorld grantFailsScript)) =
     Inr \<lparr>content_text =
            ''The usernameOrAlias parameter is required. Use the #get_username tool if not specified.'',
          isError = True\<rparr>
   \<and> trace (snd (exec scriptedServices noUserInput (startWorld grantFailsScript))) = []
   \<and> remote (snd (exec scriptedServices noUserInput (startWorld grantFailsScript))) =
       grantFailsScript"
proof -
  have h: "usernameOrAlias noUserInput = None \<or> usernameOrAlias noUserInput = Some []"
    by (simp add: noUserInput_def)
  show ?thesis
    using missing_identifier_rejected [OF h, of scriptedServices "startWorld grantFailsScript"]
    by (simp add: usernameRequired_def startWorld_def)
qed

text \<open>
  C10. When the identifier is missing (or empty), the working directory stays what it
  was and \<open>process.chdir\<close> is not called. When the identifier is there and
  \<open>process.chdir\<close> succeeds, the working directory after \<open>exec\<close> is the one it
  changed to.
\<close>

theorem rejection_leaves_cwd:
  "(usernameOrAlias input = None \<or> usernameOrAlias input = Some [] \<longrightarrow>
      cwd (snd (exec services input w)) = cwd w
      \<and> EvChdir (directory input) \<notin> set (drop (length (trace w)) (trace (snd (exec services input w)))))
   \<and> (\<forall>u d. usernameOrAlias input = Some u \<and> u \<noteq> [] \<and>
              chdir_to services (cwd w) (directory input) = Inr d \<longrightarrow>
        cwd (snd (exec services input w)) = d)"
  by (auto simp: exec_def execWith_cwd)

text \<open>A run for C10: without and with the identifier.\<close>

theorem rejection_leaves_cwd_witness:
  "cwd (snd (exec scriptedServices noUserInput (startWorld grantFailsScript))) = ''/home''
   \<and> cwd (snd (exec scriptedServices userInput (startWorld grantFailsScript))) = ''/project''"
proof -
  have a: "usernameOrAlias noUserInput = None \<or> usernameOrAlias noUserInput = Some []"
    by (simp add: noUserInput_def)
  have b: "usernameOrAlias userInput = Some ''dev@example.com'' \<and> ''dev@example.com'' \<noteq> [] \<and>
      chdir_to scriptedServices (cwd (startWorld grantFailsScript)) (directory userInput) =
        Inr ''/project''"
    by (simp add: userInput_def scriptedServices_def)
  show ?thesis
    using rejection_leaves_cwd [of noUserInput scriptedServices "startWorld grantFailsScript"]
      rejection_leaves_cwd [of userInput scriptedServices "startWorld grantFailsScript"] a b
    by (simp add: startWorld_def)
qed

end
